theory Spec2Isabelle
  imports Complex_Main "HOL-Library.Multiset" "HOL-Library.AList"
begin

section \<open>Values shared by the handlers\<close>

text \<open>
  Exceptions of the Python runtime and of the library are values. \<open>EventHubError\<close> carries
  its message, as does \<open>OtherError\<close>, which stands for any other exception; the named
  exceptions of the runtime carry none.
\<close>

datatype py_error =
  KeyError | TypeError | IndexError | ValueError | EventHubError string | OtherError string

text \<open>
  An AMQP message as far as the handlers read it: the message annotations (\<open>None\<close> or a
  dictionary) and the body. \<open>EventData.create\<close> wraps a message without copying it, so an
  event data object is its message.
\<close>

record message =
  annotations :: "(string \<times> string) list option"
  body :: string

definition PROP_OFFSET :: string where
  "PROP_OFFSET = ''x-opt-offset''"

text \<open>\<open>EventData.offset\<close>: \<open>self.message.annotations[EventData.PROP_OFFSET]\<close>.\<close>

definition EventData_offset :: "message \<Rightarrow> py_error + string" where
  "EventData_offset m =
     (case annotations m of
        None \<Rightarrow> Inl TypeError
      | Some a \<Rightarrow> (case map_of a PROP_OFFSET of None \<Rightarrow> Inl KeyError | Some v \<Rightarrow> Inr v))"

section \<open>AsyncReceiver (src/eventhubs/async/__init__.py)\<close>

text \<open>
  The fields of the receiver, followed by what it does to its collaborators: the credit
  grants issued with \<open>link.flow(N)\<close> in order, the number of reactor timers scheduled,
  the number of futures created so far (a future is named by its index), and the futures
  handed to \<open>call_soon_threadsafe(waiter.set_result, None)\<close>. \<open>link\<close> tells whether
  \<open>self.link\<close> is a link or \<open>None\<close>. Every handler runs as one atomic step.
\<close>

record async_receiver =
  messages :: "message list"
  link :: bool
  waiter :: "nat option"
  prefetch :: int
  credit :: int
  delivered :: int
  closed :: bool
  offset :: "string option"
  flows :: "int list"
  timers :: nat
  futures :: nat
  woken :: "nat list"

definition AsyncReceiver_init :: "int \<Rightarrow> async_receiver" where
  "AsyncReceiver_init p =
     \<lparr>messages = [], link = False, waiter = None, prefetch = p, credit = 0, delivered = 0,
      closed = False, offset = None, flows = [], timers = 0, futures = 0, woken = []\<rparr>"

definition AsyncReceiver_on_start :: "async_receiver \<Rightarrow> async_receiver" where
  "AsyncReceiver_on_start s =
     s\<lparr>link := True, credit := prefetch s, delivered := 0, flows := flows s @ [prefetch s]\<rparr>"

text \<open>\<open>while not self.messages.empty(): self.messages.get()\<close>\<close>

fun queue_discard :: "'a list \<Rightarrow> 'a list" where
  "queue_discard [] = []"
| "queue_discard (x # q) = queue_discard q"

definition AsyncReceiver_on_stop :: "bool \<Rightarrow> async_receiver \<Rightarrow> async_receiver" where
  "AsyncReceiver_on_stop cl s =
     s\<lparr>closed := cl, link := False, messages := queue_discard (messages s)\<rparr>"

text \<open>
  \<open>ReceiverHandler.on_stop(condition)\<close> (src/eventhubs/_impl.py) passes the client's
  \<open>stopped\<close> flag on and ignores the condition.
\<close>

definition ReceiverHandler_on_stop :: "bool \<Rightarrow> 'c \<Rightarrow> async_receiver \<Rightarrow> async_receiver" where
  "ReceiverHandler_on_stop client_stopped condition s = AsyncReceiver_on_stop client_stopped s"

definition check_flow :: "async_receiver \<Rightarrow> async_receiver" where
  "check_flow s =
     (if delivered s \<ge> 100 \<and> link s
      then s\<lparr>flows := flows s @ [delivered s], credit := credit s + delivered s, delivered := 0\<rparr>
      else s)"

text \<open>
  \<open>on_message\<close>: reading the offset annotation comes first and may raise, before anything
  is changed. The rest runs under the lock; the waiter is woken after the lock is released.
\<close>

definition AsyncReceiver_on_message :: "message \<Rightarrow> async_receiver \<Rightarrow> py_error + async_receiver" where
  "AsyncReceiver_on_message m s =
     (case EventData_offset m of
        Inl e \<Rightarrow> Inl e
      | Inr off \<Rightarrow>
          (let s1 = s\<lparr>offset := Some off\<rparr>;
               s2 = s1\<lparr>messages := messages s1 @ [m]\<rparr>;
               s3 = s2\<lparr>credit := credit s2 - 1\<rparr>;
               s4 = check_flow s3;
               s5 = (if credit s4 = 0 then s4\<lparr>timers := Suc (timers s4)\<rparr> else s4)
           in case waiter s5 of
                None \<Rightarrow> Inr s5
              | Some w \<Rightarrow> Inr (s5\<lparr>waiter := None, woken := woken s5 @ [w]\<rparr>)))"

definition AsyncReceiver_on_timer_task :: "async_receiver \<Rightarrow> async_receiver" where
  "AsyncReceiver_on_timer_task s =
     (let s1 = check_flow s
      in if waiter s1 = None \<and> length (messages s1) > 0
         then s1\<lparr>timers := Suc (timers s1)\<rparr> else s1)"

text \<open>
  The inner loop of \<open>receive\<close>, \<open>while size > 0 and count > 0\<close>: the queue (whose length is
  \<open>size\<close>), \<open>count\<close>, the batch and \<open>self.delivered\<close>.
\<close>

fun fill_batch :: "message list \<Rightarrow> int \<Rightarrow> message list \<Rightarrow> int \<Rightarrow> message list \<times> message list \<times> int" where
  "fill_batch [] cnt batch d = ([], batch, d)"
| "fill_batch (m # q) cnt batch d =
     (if cnt > 0 then fill_batch q (cnt - 1) (batch @ [m]) (d + 1) else (m # q, batch, d))"

text \<open>
  What a pass of \<open>receive\<close> ends with: a batch is returned, \<open>None\<close> is returned, or the call
  is suspended on the future it has stored in \<open>self.waiter\<close>.
\<close>

datatype receive_result = Batch "message list" | ReturnNone | Await nat

text \<open>
  One pass of \<open>receive(count)\<close>, from the call or from a wake-up to the next return or
  suspension. A suspended call holds an empty batch and its \<open>count\<close> unchanged, so when it
  is woken it goes on as a fresh pass with the same \<open>count\<close>.
\<close>

definition AsyncReceiver_receive :: "int \<Rightarrow> async_receiver \<Rightarrow> receive_result \<times> async_receiver" where
  "AsyncReceiver_receive cnt s =
     (if closed s then (ReturnNone, s)
      else
        (case fill_batch (messages s) cnt [] (delivered s) of
           (q, batch, d) \<Rightarrow>
             (let s1 = s\<lparr>messages := q, delivered := d\<rparr>
              in if batch \<noteq> [] then (Batch batch, s1)
                 else (Await (futures s1), s1\<lparr>waiter := Some (futures s1), futures := Suc (futures s1)\<rparr>))))"

text \<open>The steps of a receiver between a start and a stop, and a run of them.\<close>

datatype receiver_event = OnMessage message | Receive int | OnTimerTask | CheckFlow

fun receiver_step :: "async_receiver \<Rightarrow> receiver_event \<Rightarrow> async_receiver" where
  "receiver_step s (OnMessage m) =
     (case AsyncReceiver_on_message m s of Inl e \<Rightarrow> s | Inr s' \<Rightarrow> s')"
| "receiver_step s (Receive cnt) = snd (AsyncReceiver_receive cnt s)"
| "receiver_step s OnTimerTask = AsyncReceiver_on_timer_task s"
| "receiver_step s CheckFlow = check_flow s"

definition receiver_run :: "async_receiver \<Rightarrow> receiver_event list \<Rightarrow> async_receiver" where
  "receiver_run s evs = foldl receiver_step s evs"

text \<open>The messages of a list arrive one after the other; an exception ends the run.\<close>

fun deliver :: "message list \<Rightarrow> async_receiver \<Rightarrow> py_error + async_receiver" where
  "deliver [] s = Inr s"
| "deliver (m # ms) s =
     (case AsyncReceiver_on_message m s of Inl e \<Rightarrow> Inl e | Inr s' \<Rightarrow> deliver ms s')"

section \<open>SenderHandler (src/eventhubs/_impl.py)\<close>

text \<open>
  The delivery states of the protocol engine (\<open>Delivery.ACCEPTED\<close>, \<open>Delivery.RELEASED\<close>, ...)
  and a condition, which is a name and a description.
\<close>

datatype disposition = RECEIVED | ACCEPTED | REJECTED | RELEASED | MODIFIED

type_synonym condition = "string \<times> string"

text \<open>
  \<open>SenderHandler.DeliveryEvent\<close>, the delivery record that \<open>send\<close> creates. \<open>ev_id\<close> is the
  identity of the object: the n-th record created has identity n. \<open>ev_start\<close> is the value of
  \<open>time.time()\<close> at creation, in seconds. The callback and its \<open>state\<close> argument are fixed
  per record, so a call \<open>callback(state, outcome, condition)\<close> is recorded as the record's
  identity with the outcome and the condition.
\<close>

record delivery_event =
  ev_id :: nat
  ev_message :: string
  ev_start :: real

type_synonym completion = "nat \<times> disposition \<times> condition option"



text \<open>
  The handler. \<open>sender_link\<close> is \<open>self.link\<close>: \<open>None\<close>, or a link with its credit.
  \<open>deliveries\<close> is the dictionary from deliveries to records, in insertion order; a delivery
  of the protocol engine is named by a number. \<open>tracker_task\<close> tells whether the tracker's
  timer task is set. \<open>client_stopped\<close> and \<open>remote_container\<close> are the fields of the client
  that the handler reads. The remaining fields record what the handler does to its
  collaborators: the completions in order, the deliveries settled, the number of records
  created, the number of deliveries the link has made, the number of triggers of the
  injector, the number of restart timers scheduled, and whether the connection was closed.
\<close>

record sender_handler =
  sender_link :: "nat option"
  queue :: "delivery_event list"
  deliveries :: "(nat \<times> delivery_event) list"
  tracker_task :: bool
  iteration :: nat
  client_stopped :: bool
  remote_container :: string
  completions :: "completion list"
  settled :: "nat list"
  created :: nat
  sent :: nat
  triggered :: nat
  restarts :: nat
  connection_closed :: bool

definition SenderHandler_init :: "string \<Rightarrow> sender_handler" where
  "SenderHandler_init rc =
     \<lparr>sender_link = None, queue = [], deliveries = [], tracker_task = False, iteration = 0,
      client_stopped = False, remote_container = rc, completions = [], settled = [],
      created = 0, sent = 0, triggered = 0, restarts = 0, connection_closed = False\<rparr>"

definition SenderHandler_send :: "string \<Rightarrow> real \<Rightarrow> sender_handler \<Rightarrow> sender_handler" where
  "SenderHandler_send msg now s =
     (let event = \<lparr>ev_id = created s, ev_message = msg, ev_start = now\<rparr>
      in s\<lparr>created := Suc (created s), queue := queue s @ [event],
           triggered := Suc (triggered s)\<rparr>)"

text \<open>\<open>ClientHandler.start\<close> with \<open>SenderHandler.on_start\<close>: a new link, which has no credit yet.\<close>

definition ClientHandler_start :: "sender_handler \<Rightarrow> sender_handler" where
  "ClientHandler_start s = s\<lparr>iteration := Suc (iteration s), sender_link := Some 0\<rparr>"



definition DeliveryTracker_stop :: "sender_handler \<Rightarrow> sender_handler" where
  "DeliveryTracker_stop s = (if tracker_task s then s\<lparr>tracker_task := False\<rparr> else s)"







definition SenderHandler_on_link_closed :: "condition option \<Rightarrow> sender_handler \<Rightarrow> sender_handler" where
  "SenderHandler_on_link_closed cond s =
     (let s1 = s\<lparr>completions := completions s @
                   map (\<lambda>(dlv, e). (ev_id e, RELEASED, cond)) (deliveries s)\<rparr>;
          s2 = s1\<lparr>deliveries := []\<rparr>
      in DeliveryTracker_stop s2)"

definition SenderHandler_on_stop :: "condition option \<Rightarrow> sender_handler \<Rightarrow> sender_handler" where
  "SenderHandler_on_stop cond s = SenderHandler_on_link_closed cond s"

definition ClientHandler_stop :: "condition option \<Rightarrow> sender_handler \<Rightarrow> sender_handler" where
  "ClientHandler_stop cond s =
     (let s1 = SenderHandler_on_stop cond s
      in if sender_link s1 \<noteq> None then s1\<lparr>sender_link := None\<rparr> else s1)"

definition fatal_conditions :: "string list" where
  "fatal_conditions = [''amqp:unauthorized-access'', ''amqp:not-found'']"

text \<open>
  \<open>on_link_remote_close\<close> for an event whose link is locally closed or not
  (\<open>local_closed\<close>), has the remote condition \<open>cond\<close>, and is the handler's link or not
  (\<open>own_link\<close>).
\<close>

definition ClientHandler_on_link_remote_close ::
    "bool \<Rightarrow> condition option \<Rightarrow> bool \<Rightarrow> sender_handler \<Rightarrow> sender_handler" where
  "ClientHandler_on_link_remote_close local_closed cond own_link s =
     (if local_closed then s
      else
        (let s1 = SenderHandler_on_link_closed cond s
         in if (case cond of None \<Rightarrow> False | Some c \<Rightarrow> fst c \<in> set fatal_conditions)
            then s1\<lparr>connection_closed := True\<rparr>
            else if own_link then s1\<lparr>sender_link := None, restarts := Suc (restarts s1)\<rparr>
            else s1))"







section \<open>EventHubClientAsync (src/azure/eventhub/_async/__init__.py)\<close>

text \<open>
  A redirect target as far as the client reads it, and a registered client (an
  \<open>AsyncSender\<close> or \<open>AsyncReceiver\<close> of this package's later layout, of which the client
  reads \<open>error\<close> and \<open>redirected\<close>). \<open>client_name\<close> is the identity of the object.
\<close>

record redirect =
  hostname :: string
  address :: string

record client =
  client_name :: string
  error :: "py_error option"
  redirected :: "redirect option"

text \<open>What the client does to its collaborators, in order.\<close>

datatype action =
    CreateConnection
  | CloseClient string
  | DestroyConnection
  | CreateAuth string
  | RedirectConnection redirect
  | OpenClient string

text \<open>
  The client: \<open>connection\<close> tells whether \<open>self.connection\<close> is set, \<open>auth\<close> is the address
  the current authentication was created against.
\<close>

record eventhub_client =
  clients :: "client list"
  connection :: bool
  stopped :: bool
  auth :: string
  actions :: "action list"

definition create_connection_async :: "eventhub_client \<Rightarrow> eventhub_client" where
  "create_connection_async s =
     (if \<not> connection s then s\<lparr>connection := True, actions := actions s @ [CreateConnection]\<rparr>
      else s)"

definition close_clients_async :: "eventhub_client \<Rightarrow> eventhub_client" where
  "close_clients_async s = s\<lparr>actions := actions s @ map (\<lambda>c. CloseClient (client_name c)) (clients s)\<rparr>"

definition close_connection_async :: "eventhub_client \<Rightarrow> eventhub_client" where
  "close_connection_async s =
     (if connection s then s\<lparr>actions := actions s @ [DestroyConnection], connection := False\<rparr>
      else s)"

definition stop_async :: "eventhub_client \<Rightarrow> eventhub_client" where
  "stop_async s = close_connection_async (close_clients_async (s\<lparr>stopped := True\<rparr>))"

text \<open>\<open>[c.redirected for c in self.clients if c.redirected]\<close> and \<open>[c.error for c in self.clients if c.error]\<close>\<close>

definition client_redirects :: "client list \<Rightarrow> redirect list" where
  "client_redirects cs = List.map_filter redirected cs"

definition client_errors :: "client list \<Rightarrow> py_error list" where
  "client_errors cs = List.map_filter error cs"

definition redirect_conflict :: string where
  "redirect_conflict = ''Multiple clients attempting to redirect to different hosts.''"

definition redirect_pending :: string where
  "redirect_pending = ''Some clients are attempting to redirect the connection.''"

text \<open>
  \<open>_handle_redirect\<close> from the host check on: \<open>all\<close> over no redirect is true, and
  \<open>redirects[0]\<close> then raises \<open>IndexError\<close>.
\<close>

definition redirect_all :: "redirect list \<Rightarrow> eventhub_client \<Rightarrow> (py_error + unit) \<times> eventhub_client" where
  "redirect_all redirects s =
     (case redirects of
        [] \<Rightarrow> (Inl IndexError, s)
      | r0 # rest \<Rightarrow>
          (if \<not> list_all (\<lambda>r. hostname r = hostname r0) redirects
           then (Inl (EventHubError redirect_conflict), s)
           else
             (let s1 = s\<lparr>auth := address r0, actions := actions s @ [CreateAuth (address r0)]\<rparr>;
                  s2 = s1\<lparr>actions := actions s1 @ [RedirectConnection r0]\<rparr>;
                  s3 = s2\<lparr>actions := actions s2 @ map (\<lambda>c. OpenClient (client_name c)) (clients s2)\<rparr>
              in (Inr (), s3))))"

text \<open>
  \<open>_handle_redirect(redirects)\<close>. The bounded wait for the clients that are not redirected
  is the parameter \<open>wait\<close>: from the registered clients it gives whether some wait is still
  pending after the five seconds, and the clients as they are afterwards. \<open>asyncio.wait\<close>
  raises \<open>ValueError\<close> when it is given no task.
\<close>

definition handle_redirect ::
    "(client list \<Rightarrow> bool \<times> client list) \<Rightarrow> redirect list \<Rightarrow> eventhub_client
     \<Rightarrow> (py_error + unit) \<times> eventhub_client" where
  "handle_redirect wait redirects s =
     (if length redirects \<noteq> length (clients s) then
        (let not_redirected = filter (\<lambda>c. redirected c = None) (clients s)
         in if not_redirected = [] then (Inl ValueError, s)
            else
              (case wait (clients s) of
                 (timeout, cs) \<Rightarrow>
                   (let s1 = s\<lparr>clients := cs\<rparr>
                    in if timeout then (Inl (EventHubError redirect_pending), s1)
                       else redirect_all (client_redirects (clients s1)) s1)))
      else redirect_all redirects s)"


text \<open>
  The text of an exception, \<open>str(exp)\<close>. The exceptions of the runtime carry no text in
  this development; the two that \<open>_handle_redirect\<close> can raise have the interpreter's.
\<close>

fun exception_str :: "py_error \<Rightarrow> string" where
  "exception_str (EventHubError m) = m"
| "exception_str (OtherError m) = m"
| "exception_str IndexError = ''list index out of range''"
| "exception_str ValueError = ''Set of coroutines/Futures is empty.''"
| "exception_str KeyError = ''KeyError''"
| "exception_str TypeError = ''TypeError''"

text \<open>
  The two handlers of \<open>run_async\<close>: an \<open>EventHubError\<close> is raised again as it is, any other
  exception as an \<open>EventHubError\<close> of its text; both stop the client first.
\<close>

definition run_failed :: "py_error \<Rightarrow> eventhub_client \<Rightarrow> (py_error + py_error list) \<times> eventhub_client" where
  "run_failed e s =
     (case e of
        EventHubError m \<Rightarrow> (Inl (EventHubError m), stop_async s)
      | _ \<Rightarrow> (Inl (EventHubError (exception_str e)), stop_async s))"

text \<open>
  \<open>run_async\<close>. Starting one client (\<open>_start_client_async\<close>: opening it and working the
  connection until it has started, an exception closing it with that error) is the
  parameter \<open>start\<close>, which gives the client as it is afterwards.
\<close>

definition run_async ::
    "(client \<Rightarrow> client) \<Rightarrow> (client list \<Rightarrow> bool \<times> client list) \<Rightarrow> eventhub_client
     \<Rightarrow> (py_error + py_error list) \<times> eventhub_client" where
  "run_async start wait s =
     (let s1 = create_connection_async s;
          s2 = s1\<lparr>clients := map start (clients s1)\<rparr>;
          redirects = client_redirects (clients s2);
          failed = client_errors (clients s2)
      in if failed \<noteq> [] \<and> length failed = length (clients s2) then run_failed (hd failed) s2
         else if failed \<noteq> [] then (Inr failed, s2)
         else if redirects \<noteq> [] then
           (case handle_redirect wait redirects s2 of
              (Inl e, s3) \<Rightarrow> run_failed e s3
            | (Inr u, s3) \<Rightarrow> (Inr failed, s3))
         else (Inr failed, s2))"

section \<open>Partition pump (src/eventhubsprocessor/eh_partition_pump.py)\<close>








section \<open>Offset (src/eventhubs/__init__.py)\<close>

text \<open>
  The value of an offset: a \<open>datetime\<close>, given by the whole number of microseconds from the
  epoch to it (what \<open>self.value - epoch\<close> holds), a \<open>timestamp\<close> of the protocol library, a
  string, or anything else.
\<close>

datatype offset_value = DateTime int | Timestamp int | Text string | Other

record offset_position =
  position :: offset_value
  inclusive :: bool

definition apostrophe :: string where
  "apostrophe = [CHR 0x27]"

text \<open>\<open>timestamp(x)\<close> of a float is \<open>int(x)\<close>, which drops the fraction.\<close>

definition timestamp_of :: "real \<Rightarrow> int" where
  "timestamp_of x = (if 0 \<le> x then \<lfloor>x\<rfloor> else \<lceil>x\<rceil>)"

text \<open>
  \<open>Offset.selector\<close>, giving the expression of the \<open>Selector\<close>. Two things of the runtime
  are parameters: \<open>millis\<close>, the floating-point product
  \<open>(self.value - epoch).total_seconds() * 1000.0\<close> for a number of microseconds, and
  \<open>str_ts\<close>, \<open>str\<close> of a \<open>timestamp\<close>. \<open>utf82unicode\<close> gives a string back as it is and raises
  for a value that is not one.
\<close>

definition Offset_selector ::
    "(int \<Rightarrow> real) \<Rightarrow> (int \<Rightarrow> string) \<Rightarrow> offset_position \<Rightarrow> py_error + string" where
  "Offset_selector millis str_ts self =
     (case position self of
        DateTime us \<Rightarrow>
          (let milli_seconds = timestamp_of (millis us)
           in Inr (''amqp.annotation.x-opt-enqueued-time > '' @ apostrophe @ str_ts milli_seconds @ apostrophe))
      | Timestamp t \<Rightarrow>
          Inr (''amqp.annotation.x-opt-enqueued-time > '' @ apostrophe @ str_ts t @ apostrophe)
      | Text v \<Rightarrow>
          (let operator = (if inclusive self then ''>='' else ''>'')
           in Inr (''amqp.annotation.x-opt-offset '' @ operator @ '' '' @ apostrophe @ v @ apostrophe))
      | Other \<Rightarrow> Inl TypeError)"

text \<open>
  The product in exact arithmetic, and the decimal numeral of an integer (\<open>str\<close> of a
  Python integer), to run the selector on examples.
\<close>

definition exact_millis :: "int \<Rightarrow> real" where
  "exact_millis us = real_of_int us / 1000000 * 1000"

fun decimal :: "nat \<Rightarrow> string" where
  "decimal n =
     (if n < 10 then [''0123456789'' ! n] else decimal (n div 10) @ [''0123456789'' ! (n mod 10)])"

definition str_int :: "int \<Rightarrow> string" where
  "str_int i = (if i < 0 then ''-'' @ decimal (nat (- i)) else decimal (nat i))"

section \<open>Properties of the receiver\<close>

subsection \<open>The buffer and the batch\<close>

lemma queue_discard_empty: "queue_discard q = []"
  by (induction q) simp_all

lemma fill_batch_take_drop:
  "fill_batch q cnt batch d = (drop (nat cnt) q, batch @ take (nat cnt) q, d + int (min (nat cnt) (length q)))"
proof (induction q arbitrary: cnt batch d)
  case Nil
  then show ?case by simp
next
  case (Cons m q)
  show ?case
  proof (cases "cnt > 0")
    case True
    then have k: "nat cnt = Suc (nat (cnt - 1))" by arith
    with True Cons show ?thesis by simp
  next
    case False
    then show ?thesis by simp
  qed
qed

lemma on_message_fields:
  assumes "AsyncReceiver_on_message m s = Inr s'"
  shows "messages s' = messages s @ [m]" "closed s' = closed s" "link s' = link s"
    "prefetch s' = prefetch s"
  using assms
  by (auto simp: AsyncReceiver_on_message_def check_flow_def Let_def split: sum.splits option.splits if_splits)

lemma deliver_fields:
  "deliver ms s = Inr s' \<Longrightarrow> messages s' = messages s @ ms \<and> closed s' = closed s"
proof (induction ms arbitrary: s)
  case Nil
  then show ?case by simp
next
  case (Cons m ms)
  then show ?case by (auto split: sum.splits dest: on_message_fields)
qed

text \<open>
  C2. A pass of \<open>receive(count)\<close> with \<open>count > 0\<close>, after the messages \<open>ms\<close> have arrived at
  a receiver whose buffer held \<open>messages s\<close>: a returned batch is not empty, has at most
  \<open>count\<close> items and is the front of the buffer in arrival order, the rest staying buffered;
  \<open>None\<close> is returned only by a closed receiver; and a receiver that is not closed and has
  nothing buffered suspends the call on its waiter instead of returning an empty batch.
\<close>

theorem receive_batch_contract:
  assumes "0 < cnt" and "deliver ms s = Inr s1"
  shows "case AsyncReceiver_receive cnt s1 of
           (Batch b, s2) \<Rightarrow>
              \<not> closed s1 \<and> b \<noteq> [] \<and> int (length b) \<le> cnt \<and>
              b = take (length b) (messages s @ ms) \<and>
              messages s2 = drop (length b) (messages s @ ms)
         | (ReturnNone, s2) \<Rightarrow> closed s1 \<and> s2 = s1
         | (Await w, s2) \<Rightarrow> \<not> closed s1 \<and> messages s @ ms = [] \<and> waiter s2 = Some w"
proof -
  have buf: "messages s1 = messages s @ ms"
    using assms(2) by (simp add: deliver_fields)
  show ?thesis
  proof (cases "closed s1")
    case True
    then show ?thesis by (simp add: AsyncReceiver_receive_def)
  next
    case False
    show ?thesis
    proof (cases "messages s1")
      case Nil
      with False buf show ?thesis
        by (simp add: AsyncReceiver_receive_def fill_batch_take_drop)
    next
      case (Cons m q)
      have "take (nat cnt) (messages s1) \<noteq> []"
        using Cons assms(1) by (cases "nat cnt") auto
      moreover have "int (length (take (nat cnt) (messages s1))) \<le> cnt"
        using assms(1) by simp
      moreover have "take (length (take (nat cnt) (messages s1))) (messages s1) = take (nat cnt) (messages s1)"
        by (simp add: min_def)
      moreover have "drop (length (take (nat cnt) (messages s1))) (messages s1) = drop (nat cnt) (messages s1)"
        by (simp add: min_def)
      ultimately show ?thesis
        using False buf by (simp add: AsyncReceiver_receive_def fill_batch_take_drop)
    qed
  qed
qed

theorem receive_batch_contract_witness:
  "(0::int) < 2 \<and>
   deliver [\<lparr>annotations = Some [(''x-opt-offset'', ''10'')], body = ''a''\<rparr>,
            \<lparr>annotations = Some [(''x-opt-offset'', ''11'')], body = ''b''\<rparr>,
            \<lparr>annotations = Some [(''x-opt-offset'', ''12'')], body = ''c''\<rparr>]
       (AsyncReceiver_on_start (AsyncReceiver_init 300))
     = Inr \<lparr>messages = [\<lparr>annotations = Some [(''x-opt-offset'', ''10'')], body = ''a''\<rparr>,
                        \<lparr>annotations = Some [(''x-opt-offset'', ''11'')], body = ''b''\<rparr>,
                        \<lparr>annotations = Some [(''x-opt-offset'', ''12'')], body = ''c''\<rparr>],
            link = True, waiter = None, prefetch = 300, credit = 297, delivered = 0,
            closed = False, offset = Some ''12'', flows = [300], timers = 0, futures = 0,
            woken = []\<rparr> \<and>
   fst (AsyncReceiver_receive 2
         \<lparr>messages = [\<lparr>annotations = Some [(''x-opt-offset'', ''10'')], body = ''a''\<rparr>,
                      \<lparr>annotations = Some [(''x-opt-offset'', ''11'')], body = ''b''\<rparr>,
                      \<lparr>annotations = Some [(''x-opt-offset'', ''12'')], body = ''c''\<rparr>],
          link = True, waiter = None, prefetch = 300, credit = 297, delivered = 0,
          closed = False, offset = Some ''12'', flows = [300], timers = 0, futures = 0,
          woken = []\<rparr>)
     = Batch [\<lparr>annotations = Some [(''x-opt-offset'', ''10'')], body = ''a''\<rparr>,
              \<lparr>annotations = Some [(''x-opt-offset'', ''11'')], body = ''b''\<rparr>]"
proof -
  have h1: "(0::int) < 2" by simp
  have h2: "deliver [\<lparr>annotations = Some [(''x-opt-offset'', ''10'')], body = ''a''\<rparr>,
            \<lparr>annotations = Some [(''x-opt-offset'', ''11'')], body = ''b''\<rparr>,
            \<lparr>annotations = Some [(''x-opt-offset'', ''12'')], body = ''c''\<rparr>]
       (AsyncReceiver_on_start (AsyncReceiver_init 300))
     = Inr \<lparr>messages = [\<lparr>annotations = Some [(''x-opt-offset'', ''10'')], body = ''a''\<rparr>,
                        \<lparr>annotations = Some [(''x-opt-offset'', ''11'')], body = ''b''\<rparr>,
                        \<lparr>annotations = Some [(''x-opt-offset'', ''12'')], body = ''c''\<rparr>],
            link = True, waiter = None, prefetch = 300, credit = 297, delivered = 0,
            closed = False, offset = Some ''12'', flows = [300], timers = 0, futures = 0,
            woken = []\<rparr>"
    by (simp add: AsyncReceiver_on_message_def EventData_offset_def PROP_OFFSET_def
        check_flow_def AsyncReceiver_on_start_def AsyncReceiver_init_def Let_def)
  show ?thesis
    using h1 h2 receive_batch_contract[OF h1 h2]
    by (simp add: AsyncReceiver_receive_def)
qed

text \<open>
  C10. Stopping the receiver empties the buffer whatever the stop reason (the \<open>stopped\<close>
  flag and the condition are arbitrary): the buffer is empty afterwards, after later arrivals
  \<open>ms\<close> it holds exactly \<open>ms\<close>, and a pass of \<open>receive\<close> then returns \<open>None\<close>, suspends, or
  returns a batch taken from \<open>ms\<close> alone, never a message buffered before the stop.
\<close>

theorem on_stop_discards_buffer:
  assumes "deliver ms (ReceiverHandler_on_stop st cond s) = Inr s1"
  shows "messages (ReceiverHandler_on_stop st cond s) = [] \<and>
         messages s1 = ms \<and>
         fst (AsyncReceiver_receive cnt s1) =
           (if st then ReturnNone
            else if take (nat cnt) ms = [] then Await (futures s1)
            else Batch (take (nat cnt) ms))"
proof -
  let ?t = "ReceiverHandler_on_stop st cond s"
  have empty: "messages ?t = []" and cl: "closed ?t = st"
    by (simp_all add: ReceiverHandler_on_stop_def AsyncReceiver_on_stop_def queue_discard_empty)
  have buf: "messages s1 = ms" and cl1: "closed s1 = st"
    using deliver_fields[OF assms] empty cl by simp_all
  show ?thesis
    using empty buf cl1 by (simp add: AsyncReceiver_receive_def fill_batch_take_drop)
qed

theorem on_stop_discards_buffer_witness:
  "deliver [\<lparr>annotations = Some [(''x-opt-offset'', ''12'')], body = ''c''\<rparr>]
     (ReceiverHandler_on_stop False (None :: string option)
        \<lparr>messages = [\<lparr>annotations = Some [(''x-opt-offset'', ''10'')], body = ''a''\<rparr>,
                     \<lparr>annotations = Some [(''x-opt-offset'', ''11'')], body = ''b''\<rparr>],
         link = True, waiter = None, prefetch = 300, credit = 298, delivered = 0,
         closed = False, offset = Some ''11'', flows = [300], timers = 0, futures = 0,
         woken = []\<rparr>)
     = Inr \<lparr>messages = [\<lparr>annotations = Some [(''x-opt-offset'', ''12'')], body = ''c''\<rparr>],
            link = False, waiter = None, prefetch = 300, credit = 297, delivered = 0,
            closed = False, offset = Some ''12'', flows = [300], timers = 0, futures = 0,
            woken = []\<rparr> \<and>
   fst (AsyncReceiver_receive 5
         \<lparr>messages = [\<lparr>annotations = Some [(''x-opt-offset'', ''12'')], body = ''c''\<rparr>],
          link = False, waiter = None, prefetch = 300, credit = 297, delivered = 0,
          closed = False, offset = Some ''12'', flows = [300], timers = 0, futures = 0,
          woken = []\<rparr>)
     = Batch [\<lparr>annotations = Some [(''x-opt-offset'', ''12'')], body = ''c''\<rparr>]"
proof -
  have h: "deliver [\<lparr>annotations = Some [(''x-opt-offset'', ''12'')], body = ''c''\<rparr>]
     (ReceiverHandler_on_stop False (None :: string option)
        \<lparr>messages = [\<lparr>annotations = Some [(''x-opt-offset'', ''10'')], body = ''a''\<rparr>,
                     \<lparr>annotations = Some [(''x-opt-offset'', ''11'')], body = ''b''\<rparr>],
         link = True, waiter = None, prefetch = 300, credit = 298, delivered = 0,
         closed = False, offset = Some ''11'', flows = [300], timers = 0, futures = 0,
         woken = []\<rparr>)
     = Inr \<lparr>messages = [\<lparr>annotations = Some [(''x-opt-offset'', ''12'')], body = ''c''\<rparr>],
            link = False, waiter = None, prefetch = 300, credit = 297, delivered = 0,
            closed = False, offset = Some ''12'', flows = [300], timers = 0, futures = 0,
            woken = []\<rparr>"
    by (simp add: AsyncReceiver_on_message_def EventData_offset_def PROP_OFFSET_def
        check_flow_def ReceiverHandler_on_stop_def AsyncReceiver_on_stop_def Let_def)
  show ?thesis
    using h on_stop_discards_buffer[OF h, of 5] by simp
qed

subsection \<open>Credit and flow grants\<close>



lemma started_receiver:
  "messages (AsyncReceiver_on_start (AsyncReceiver_init p)) = []"
  "\<not> closed (AsyncReceiver_on_start (AsyncReceiver_init p))"
  "link (AsyncReceiver_on_start (AsyncReceiver_init p))"
  "delivered (AsyncReceiver_on_start (AsyncReceiver_init p)) = 0"
  "credit (AsyncReceiver_on_start (AsyncReceiver_init p)) = p"
  "flows (AsyncReceiver_on_start (AsyncReceiver_init p)) = [p]"
  by (simp_all add: AsyncReceiver_on_start_def AsyncReceiver_init_def)



lemma receiver_run_append: "receiver_run s (xs @ ys) = receiver_run (receiver_run s xs) ys"
  by (simp add: receiver_run_def)

lemma on_message_effect:
  assumes "EventData_offset m = Inr off"
  shows "\<exists>s'. AsyncReceiver_on_message m s = Inr s' \<and>
           messages s' = messages s @ [m] \<and> closed s' = closed s \<and> link s' = link s \<and>
           flows s' = flows (check_flow s) \<and> delivered s' = delivered (check_flow s)"
  using assms
  by (simp add: AsyncReceiver_on_message_def check_flow_def Let_def split: option.splits)

lemma arrivals_only:
  assumes "EventData_offset m = Inr off" and "delivered s < 100"
  shows "flows (receiver_run s (replicate n (OnMessage m))) = flows s \<and>
         delivered (receiver_run s (replicate n (OnMessage m))) = delivered s"
  using assms(2)
proof (induction n arbitrary: s)
  case 0
  then show ?case by (simp add: receiver_run_def)
next
  case (Suc n)
  obtain s' where s': "AsyncReceiver_on_message m s = Inr s'"
    "flows s' = flows (check_flow s)" "delivered s' = delivered (check_flow s)"
    using on_message_effect[OF assms(1), of s] by blast
  have "flows s' = flows s" "delivered s' = delivered s"
    using s' Suc.prems by (simp_all add: check_flow_def)
  moreover have "receiver_run s (replicate (Suc n) (OnMessage m)) = receiver_run s' (replicate n (OnMessage m))"
    using s'(1) by (simp add: receiver_run_def)
  ultimately show ?case using Suc.IH[of s'] Suc.prems by simp
qed

lemma arrive_consume_step:
  assumes "EventData_offset m = Inr off" and "messages s = []" and "\<not> closed s" and "link s"
  shows "messages (receiver_run s [OnMessage m, Receive 1]) = [] \<and>
         \<not> closed (receiver_run s [OnMessage m, Receive 1]) \<and>
         link (receiver_run s [OnMessage m, Receive 1]) \<and>
         flows (receiver_run s [OnMessage m, Receive 1]) = flows (check_flow s) \<and>
         delivered (receiver_run s [OnMessage m, Receive 1]) = delivered (check_flow s) + 1"
proof -
  obtain s' where s': "AsyncReceiver_on_message m s = Inr s'"
    "messages s' = messages s @ [m]" "closed s' = closed s" "link s' = link s"
    "flows s' = flows (check_flow s)" "delivered s' = delivered (check_flow s)"
    using on_message_effect[OF assms(1), of s] by blast
  have run: "receiver_run s [OnMessage m, Receive 1] = snd (AsyncReceiver_receive 1 s')"
    using s'(1) by (simp add: receiver_run_def)
  show ?thesis
    unfolding run using s' assms(2-4)
    by (simp add: AsyncReceiver_receive_def)
qed

lemma arrive_consume_below:
  assumes "EventData_offset m = Inr off"
  shows "messages s = [] \<Longrightarrow> \<not> closed s \<Longrightarrow> link s \<Longrightarrow> delivered s + int n \<le> 100 \<Longrightarrow>
         messages (receiver_run s (concat (replicate n [OnMessage m, Receive 1]))) = [] \<and>
         \<not> closed (receiver_run s (concat (replicate n [OnMessage m, Receive 1]))) \<and>
         link (receiver_run s (concat (replicate n [OnMessage m, Receive 1]))) \<and>
         flows (receiver_run s (concat (replicate n [OnMessage m, Receive 1]))) = flows s \<and>
         delivered (receiver_run s (concat (replicate n [OnMessage m, Receive 1]))) = delivered s + int n"
proof (induction n arbitrary: s)
  case 0
  then show ?case by (simp add: receiver_run_def)
next
  case (Suc n)
  let ?s' = "receiver_run s [OnMessage m, Receive 1]"
  have below: "delivered s < 100" using Suc.prems(4) by simp
  have step: "messages ?s' = []" "\<not> closed ?s'" "link ?s'" "flows ?s' = flows s"
    "delivered ?s' = delivered s + 1"
    using arrive_consume_step[OF assms Suc.prems(1-3)] below by (simp_all add: check_flow_def)
  have split: "receiver_run s (concat (replicate (Suc n) [OnMessage m, Receive 1]))
      = receiver_run ?s' (concat (replicate n [OnMessage m, Receive 1]))"
    by (simp add: receiver_run_def)
  have "delivered ?s' + int n \<le> 100" using step(5) Suc.prems(4) by simp
  from Suc.IH[OF step(1-3) this] show ?case
    unfolding split using step(4,5) by simp
qed

lemma replicate_150: "concat (replicate 150 xs) = concat (replicate 100 xs) @ xs @ concat (replicate 49 xs)"
proof -
  have "(150::nat) = 100 + Suc 49" by simp
  then have "replicate 150 xs = replicate 100 xs @ xs # replicate 49 xs"
    by (simp only: replicate_add replicate_Suc)
  then show ?thesis by simp
qed

lemma receive_counter:
  "delivered (snd (AsyncReceiver_receive cnt s)) =
     (if closed s then delivered s else delivered s + int (min (nat cnt) (length (messages s))))"
  "flows (snd (AsyncReceiver_receive cnt s)) = flows s"
  by (simp_all add: AsyncReceiver_receive_def fill_batch_take_drop Let_def)

text \<open>
  C4, as the code has it. A grant is issued by \<open>_check_flow\<close>, which \<open>on_message\<close> and the
  timer run: with a link and a counter of at least 100 it grants the counter's value, adds it
  to the credit and resets the counter. The counter is advanced by \<open>receive\<close> only, by the
  size of the batch, and \<open>receive\<close> grants nothing. With prefetch 300: 150 arrivals that
  nobody consumes cause no grant; 150 arrivals each consumed at once cause exactly one grant,
  of 100, issued when message 101 arrives, and leave a remainder of 50.
\<close>

theorem flow_regrant_follows_consumption:
  assumes "EventData_offset m = Inr off"
  shows "flows (check_flow s) = (if 100 \<le> delivered s \<and> link s then flows s @ [delivered s] else flows s) \<and>
         delivered (check_flow s) = (if 100 \<le> delivered s \<and> link s then 0 else delivered s) \<and>
         credit (check_flow s) = (if 100 \<le> delivered s \<and> link s then credit s + delivered s else credit s) \<and>
         (\<exists>s'. AsyncReceiver_on_message m s = Inr s' \<and>
               flows s' = flows (check_flow s) \<and> delivered s' = delivered (check_flow s)) \<and>
         flows (snd (AsyncReceiver_receive cnt s)) = flows s \<and>
         delivered (snd (AsyncReceiver_receive cnt s)) =
           (if closed s then delivered s else delivered s + int (min (nat cnt) (length (messages s)))) \<and>
         flows (receiver_run (AsyncReceiver_on_start (AsyncReceiver_init 300))
                  (replicate 150 (OnMessage m))) = [300] \<and>
         flows (receiver_run (AsyncReceiver_on_start (AsyncReceiver_init 300))
                  (concat (replicate 100 [OnMessage m, Receive 1]))) = [300] \<and>
         flows (receiver_run (AsyncReceiver_on_start (AsyncReceiver_init 300))
                  (concat (replicate 100 [OnMessage m, Receive 1]) @ [OnMessage m])) = [300, 100] \<and>
         flows (receiver_run (AsyncReceiver_on_start (AsyncReceiver_init 300))
                  (concat (replicate 150 [OnMessage m, Receive 1]))) = [300, 100] \<and>
         delivered (receiver_run (AsyncReceiver_on_start (AsyncReceiver_init 300))
                  (concat (replicate 150 [OnMessage m, Receive 1]))) = 50"
proof -
  let ?s0 = "AsyncReceiver_on_start (AsyncReceiver_init 300)"
  let ?pair = "[OnMessage m, Receive 1]"
  let ?s100 = "receiver_run ?s0 (concat (replicate 100 ?pair))"
  let ?s101 = "receiver_run ?s100 ?pair"
  let ?s150 = "receiver_run ?s101 (concat (replicate 49 ?pair))"
  have cf: "flows (check_flow s) = (if 100 \<le> delivered s \<and> link s then flows s @ [delivered s] else flows s)"
    "delivered (check_flow s) = (if 100 \<le> delivered s \<and> link s then 0 else delivered s)"
    "credit (check_flow s) = (if 100 \<le> delivered s \<and> link s then credit s + delivered s else credit s)"
    by (simp_all add: check_flow_def)
  have om: "\<exists>s'. AsyncReceiver_on_message m s = Inr s' \<and>
               flows s' = flows (check_flow s) \<and> delivered s' = delivered (check_flow s)"
    using on_message_effect[OF assms, of s] by blast
  have only: "flows (receiver_run ?s0 (replicate 150 (OnMessage m))) = [300]"
    using arrivals_only[OF assms, of ?s0 150] by (simp add: started_receiver)
  have s100: "messages ?s100 = []" "\<not> closed ?s100" "link ?s100" "flows ?s100 = [300]"
    "delivered ?s100 = 100"
    using arrive_consume_below[OF assms, of ?s0 100] by (simp_all add: started_receiver)
  obtain t where t: "AsyncReceiver_on_message m ?s100 = Inr t" "flows t = flows (check_flow ?s100)"
    using on_message_effect[OF assms, of ?s100] by blast
  have at101: "flows (receiver_run ?s0 (concat (replicate 100 ?pair) @ [OnMessage m])) = [300, 100]"
    using t s100 by (simp add: receiver_run_append receiver_run_def check_flow_def)
  have s101: "messages ?s101 = []" "\<not> closed ?s101" "link ?s101" "flows ?s101 = [300, 100]"
    "delivered ?s101 = 1"
    using arrive_consume_step[OF assms s100(1-3)] s100(3-5) by (simp_all add: check_flow_def)
  have "delivered ?s101 + int 49 \<le> 100" using s101(5) by simp
  from arrive_consume_below[OF assms s101(1-3) this]
  have s150: "flows ?s150 = [300, 100]" "delivered ?s150 = 50"
    using s101(4,5) by simp_all
  have run150: "receiver_run ?s0 (concat (replicate 150 ?pair)) = ?s150"
    by (simp only: replicate_150 receiver_run_append)
  show ?thesis
    using cf om only s100(4) at101 s150 unfolding run150
    by (simp only: receive_counter simp_thms)
qed

theorem flow_regrant_follows_consumption_witness:
  "EventData_offset \<lparr>annotations = Some [(''x-opt-offset'', ''0'')], body = ''a''\<rparr> = Inr ''0'' \<and>
   flows (receiver_run (AsyncReceiver_on_start (AsyncReceiver_init 300))
            (concat (replicate 150 [OnMessage \<lparr>annotations = Some [(''x-opt-offset'', ''0'')], body = ''a''\<rparr>, Receive 1])))
     = [300, 100] \<and>
   flows (receiver_run (AsyncReceiver_on_start (AsyncReceiver_init 300))
            (replicate 150 (OnMessage \<lparr>annotations = Some [(''x-opt-offset'', ''0'')], body = ''a''\<rparr>)))
     = [300]"
proof -
  have h: "EventData_offset \<lparr>annotations = Some [(''x-opt-offset'', ''0'')], body = ''a''\<rparr> = Inr ''0''"
    by (simp add: EventData_offset_def PROP_OFFSET_def)
  show ?thesis
    using h flow_regrant_follows_consumption[OF h] by simp
qed

text \<open>
  C4 as stated fails: 150 arrivals with no call of \<open>receive\<close> do not cause the grant of 100.
\<close>

theorem delivery_alone_grants_nothing:
  "\<not> (flows (receiver_run (AsyncReceiver_on_start (AsyncReceiver_init 300))
            (replicate 150 (OnMessage \<lparr>annotations = Some [(''x-opt-offset'', ''0'')], body = ''a''\<rparr>)))
        = [300, 100])"
proof -
  have h: "EventData_offset \<lparr>annotations = Some [(''x-opt-offset'', ''0'')], body = ''a''\<rparr> = Inr ''0''"
    by (simp add: EventData_offset_def PROP_OFFSET_def)
  show ?thesis
    using arrivals_only[OF h, of "AsyncReceiver_on_start (AsyncReceiver_init 300)" 150]
    by (simp add: started_receiver)
qed

section \<open>Properties of the sender\<close>


























text \<open>
  C6, as the code has it. When the link is closed, by \<open>stop\<close> or by the peer (for a link that
  is not closed locally), every record in the dictionary of deliveries is completed with
  \<open>RELEASED\<close> and the condition, in order, the dictionary is emptied and the tracker's timer
  task is cleared; nothing is sent (the number of deliveries made is unchanged), and the
  pending queue is left as it is.
\<close>

theorem link_closed_releases_outstanding:
  "completions (SenderHandler_on_link_closed cond s) =
     completions s @ map (\<lambda>(dlv, e). (ev_id e, RELEASED, cond)) (deliveries s) \<and>
   deliveries (SenderHandler_on_link_closed cond s) = [] \<and>
   \<not> tracker_task (SenderHandler_on_link_closed cond s) \<and>
   queue (SenderHandler_on_link_closed cond s) = queue s \<and>
   sent (SenderHandler_on_link_closed cond s) = sent s \<and>
   ClientHandler_stop cond s = (SenderHandler_on_link_closed cond s)\<lparr>sender_link := None\<rparr> \<and>
   completions (ClientHandler_on_link_remote_close False cond own s) =
     completions s @ map (\<lambda>(dlv, e). (ev_id e, RELEASED, cond)) (deliveries s) \<and>
   deliveries (ClientHandler_on_link_remote_close False cond own s) = [] \<and>
   \<not> tracker_task (ClientHandler_on_link_remote_close False cond own s) \<and>
   queue (ClientHandler_on_link_remote_close False cond own s) = queue s \<and>
   sent (ClientHandler_on_link_remote_close False cond own s) = sent s"
proof -
  have a: "completions (SenderHandler_on_link_closed cond s) =
     completions s @ map (\<lambda>(dlv, e). (ev_id e, RELEASED, cond)) (deliveries s)"
    "deliveries (SenderHandler_on_link_closed cond s) = []"
    "\<not> tracker_task (SenderHandler_on_link_closed cond s)"
    "queue (SenderHandler_on_link_closed cond s) = queue s"
    "sent (SenderHandler_on_link_closed cond s) = sent s"
    by (simp_all add: SenderHandler_on_link_closed_def DeliveryTracker_stop_def Let_def)
  have b: "ClientHandler_stop cond s = (SenderHandler_on_link_closed cond s)\<lparr>sender_link := None\<rparr>"
    by (cases "sender_link (SenderHandler_on_link_closed cond s)")
      (simp_all add: ClientHandler_stop_def SenderHandler_on_stop_def Let_def)
  have c: "completions (ClientHandler_on_link_remote_close False cond own s) =
             completions (SenderHandler_on_link_closed cond s)"
    "deliveries (ClientHandler_on_link_remote_close False cond own s) =
             deliveries (SenderHandler_on_link_closed cond s)"
    "tracker_task (ClientHandler_on_link_remote_close False cond own s) =
             tracker_task (SenderHandler_on_link_closed cond s)"
    "queue (ClientHandler_on_link_remote_close False cond own s) =
             queue (SenderHandler_on_link_closed cond s)"
    "sent (ClientHandler_on_link_remote_close False cond own s) =
             sent (SenderHandler_on_link_closed cond s)"
    by (simp_all add: ClientHandler_on_link_remote_close_def Let_def)
  show ?thesis
    unfolding c using a b by simp
qed

text \<open>
  C6 as stated fails: a message sent while the link has no credit is still in the pending
  queue after \<open>stop\<close>.
\<close>

theorem pending_queue_survives_close:
  "queue (ClientHandler_stop None
            (SenderHandler_send ''m'' 0 (ClientHandler_start (SenderHandler_init ''peer''))))
     = [\<lparr>ev_id = 0, ev_message = ''m'', ev_start = 0\<rparr>] \<and>
   \<not> (queue (ClientHandler_stop None
            (SenderHandler_send ''m'' 0 (ClientHandler_start (SenderHandler_init ''peer'')))) = [])"
  by (simp add: SenderHandler_init_def ClientHandler_start_def SenderHandler_send_def
      ClientHandler_stop_def SenderHandler_on_stop_def SenderHandler_on_link_closed_def
      DeliveryTracker_stop_def Let_def)

section \<open>Properties of the client\<close>






lemma run_failed_eq: "run_failed e s = (Inl (EventHubError (exception_str e)), stop_async s)"
  by (cases e) (simp_all add: run_failed_def)

lemma stop_async_torn_down: "stopped (stop_async s) \<and> \<not> connection (stop_async s)"
  by (simp add: stop_async_def close_connection_async_def close_clients_async_def)

lemma length_map_filter_le: "length (List.map_filter f xs) \<le> length xs"
  by (induction xs) (auto simp: List.map_filter_simps split: option.splits)

lemma all_failed_iff:
  "length (List.map_filter f xs) = length xs \<longleftrightarrow> (\<forall>x \<in> set xs. f x \<noteq> None)"
proof (induction xs)
  case Nil
  then show ?case by (simp add: List.map_filter_simps)
next
  case (Cons x xs)
  show ?case
  proof (cases "f x")
    case None
    have "length (List.map_filter f xs) \<le> length xs" by (rule length_map_filter_le)
    with None show ?thesis by (simp add: List.map_filter_simps)
  next
    case (Some y)
    with Cons show ?thesis by (simp add: List.map_filter_simps)
  qed
qed

text \<open>
  C5, as the code has it. With at least one client registered and every client failed,
  \<open>run_async\<close> raises an \<open>EventHubError\<close> with the text of the first error, after stopping
  the client and destroying the connection. With some but not all clients failed it returns
  exactly the errors of the failed clients, in order, and leaves the connection open. With
  none failed and none redirected it returns the empty list. With none failed and some
  redirected it returns the empty list when \<open>_handle_redirect\<close> returns, and raises, after
  stopping the client, when \<open>_handle_redirect\<close> raises.
\<close>

theorem run_async_start_policy:
  "(clients s \<noteq> [] \<and> (\<forall>c \<in> set (map start (clients s)). error c \<noteq> None) \<longrightarrow>
      run_async start wait s =
        (Inl (EventHubError (exception_str (hd (client_errors (map start (clients s)))))),
         stop_async ((create_connection_async s)\<lparr>clients := map start (clients s)\<rparr>)) \<and>
      stopped (snd (run_async start wait s)) \<and> \<not> connection (snd (run_async start wait s))) \<and>
   (client_errors (map start (clients s)) \<noteq> [] \<and>
    length (client_errors (map start (clients s))) < length (clients s) \<longrightarrow>
      run_async start wait s =
        (Inr (client_errors (map start (clients s))),
         (create_connection_async s)\<lparr>clients := map start (clients s)\<rparr>) \<and>
      connection (snd (run_async start wait s)) \<and>
      stopped (snd (run_async start wait s)) = stopped s) \<and>
   (client_errors (map start (clients s)) = [] \<and> client_redirects (map start (clients s)) = [] \<longrightarrow>
      run_async start wait s =
        (Inr [], (create_connection_async s)\<lparr>clients := map start (clients s)\<rparr>)) \<and>
   (client_errors (map start (clients s)) = [] \<and> client_redirects (map start (clients s)) \<noteq> [] \<longrightarrow>
      run_async start wait s =
        (case handle_redirect wait (client_redirects (map start (clients s)))
                ((create_connection_async s)\<lparr>clients := map start (clients s)\<rparr>) of
           (Inl e, s3) \<Rightarrow> (Inl (EventHubError (exception_str e)), stop_async s3)
         | (Inr u, s3) \<Rightarrow> (Inr [], s3)))"
proof -
  let ?cs = "map start (clients s)"
  let ?s2 = "(create_connection_async s)\<lparr>clients := ?cs\<rparr>"
  have cl: "clients (create_connection_async s) = clients s"
    by (simp add: create_connection_async_def)
  have conn: "connection ?s2" "stopped ?s2 = stopped s"
    by (simp_all add: create_connection_async_def)
  have run: "run_async start wait s =
      (if client_errors ?cs \<noteq> [] \<and> length (client_errors ?cs) = length ?cs
       then run_failed (hd (client_errors ?cs)) ?s2
       else if client_errors ?cs \<noteq> [] then (Inr (client_errors ?cs), ?s2)
       else if client_redirects ?cs \<noteq> [] then
         (case handle_redirect wait (client_redirects ?cs) ?s2 of
            (Inl e, s3) \<Rightarrow> run_failed e s3
          | (Inr u, s3) \<Rightarrow> (Inr (client_errors ?cs), s3))
       else (Inr (client_errors ?cs), ?s2))"
    unfolding run_async_def Let_def by (simp add: cl split: prod.splits sum.splits)
  have all: "clients s \<noteq> [] \<and> (\<forall>c \<in> set ?cs. error c \<noteq> None) \<longrightarrow>
      run_async start wait s =
        (Inl (EventHubError (exception_str (hd (client_errors ?cs)))), stop_async ?s2) \<and>
      stopped (snd (run_async start wait s)) \<and> \<not> connection (snd (run_async start wait s))"
  proof
    assume a: "clients s \<noteq> [] \<and> (\<forall>c \<in> set ?cs. error c \<noteq> None)"
    then have "\<forall>c \<in> set ?cs. error c \<noteq> None" by blast
    then have len: "length (client_errors ?cs) = length ?cs"
      unfolding client_errors_def by (simp only: all_failed_iff)
    moreover have "client_errors ?cs \<noteq> []" using len a by auto
    ultimately have "run_async start wait s = run_failed (hd (client_errors ?cs)) ?s2"
      unfolding run by simp
    then have r: "run_async start wait s =
        (Inl (EventHubError (exception_str (hd (client_errors ?cs)))), stop_async ?s2)"
      by (simp add: run_failed_eq)
    show "run_async start wait s =
        (Inl (EventHubError (exception_str (hd (client_errors ?cs)))), stop_async ?s2) \<and>
      stopped (snd (run_async start wait s)) \<and> \<not> connection (snd (run_async start wait s))"
      unfolding r using stop_async_torn_down[of ?s2] by simp
  qed
  have some: "client_errors ?cs \<noteq> [] \<and> length (client_errors ?cs) < length (clients s) \<longrightarrow>
      run_async start wait s = (Inr (client_errors ?cs), ?s2) \<and>
      connection (snd (run_async start wait s)) \<and>
      stopped (snd (run_async start wait s)) = stopped s"
  proof
    assume a: "client_errors ?cs \<noteq> [] \<and> length (client_errors ?cs) < length (clients s)"
    then have "length (client_errors ?cs) \<noteq> length ?cs" by simp
    with a have r: "run_async start wait s = (Inr (client_errors ?cs), ?s2)"
      unfolding run by simp
    show "run_async start wait s = (Inr (client_errors ?cs), ?s2) \<and>
      connection (snd (run_async start wait s)) \<and>
      stopped (snd (run_async start wait s)) = stopped s"
      unfolding r using conn by simp
  qed
  have none: "client_errors ?cs = [] \<and> client_redirects ?cs = [] \<longrightarrow>
      run_async start wait s = (Inr [], ?s2)"
    unfolding run by simp
  have redir: "client_errors ?cs = [] \<and> client_redirects ?cs \<noteq> [] \<longrightarrow>
      run_async start wait s =
        (case handle_redirect wait (client_redirects ?cs) ?s2 of
           (Inl e, s3) \<Rightarrow> (Inl (EventHubError (exception_str e)), stop_async s3)
         | (Inr u, s3) \<Rightarrow> (Inr [], s3))"
    unfolding run by (simp add: run_failed_eq split: prod.splits sum.splits)
  from all some none redir show ?thesis by blast
qed

theorem run_async_start_policy_witness:
  "run_async (\<lambda>c. c) (\<lambda>cs. (False, cs))
     \<lparr>clients = [\<lparr>client_name = ''c1'', error = Some (EventHubError ''no link''), redirected = None\<rparr>,
                 \<lparr>client_name = ''c2'', error = Some (OtherError ''refused''), redirected = None\<rparr>],
      connection = False, stopped = False, auth = ''amqps://origin/hub'', actions = []\<rparr>
   = (Inl (EventHubError ''no link''),
      \<lparr>clients = [\<lparr>client_name = ''c1'', error = Some (EventHubError ''no link''), redirected = None\<rparr>,
                 \<lparr>client_name = ''c2'', error = Some (OtherError ''refused''), redirected = None\<rparr>],
       connection = False, stopped = True, auth = ''amqps://origin/hub'',
       actions = [CreateConnection, CloseClient ''c1'', CloseClient ''c2'', DestroyConnection]\<rparr>) \<and>
   run_async (\<lambda>c. c) (\<lambda>cs. (False, cs))
     \<lparr>clients = [\<lparr>client_name = ''c1'', error = None, redirected = None\<rparr>,
                 \<lparr>client_name = ''c2'', error = Some (OtherError ''refused''), redirected = None\<rparr>],
      connection = False, stopped = False, auth = ''amqps://origin/hub'', actions = []\<rparr>
   = (Inr [OtherError ''refused''],
      \<lparr>clients = [\<lparr>client_name = ''c1'', error = None, redirected = None\<rparr>,
                 \<lparr>client_name = ''c2'', error = Some (OtherError ''refused''), redirected = None\<rparr>],
       connection = True, stopped = False, auth = ''amqps://origin/hub'',
       actions = [CreateConnection]\<rparr>) \<and>
   run_async (\<lambda>c. c) (\<lambda>cs. (False, cs))
     \<lparr>clients = [\<lparr>client_name = ''c1'', error = None, redirected = None\<rparr>,
                 \<lparr>client_name = ''c2'', error = None, redirected = None\<rparr>],
      connection = False, stopped = False, auth = ''amqps://origin/hub'', actions = []\<rparr>
   = (Inr [],
      \<lparr>clients = [\<lparr>client_name = ''c1'', error = None, redirected = None\<rparr>,
                 \<lparr>client_name = ''c2'', error = None, redirected = None\<rparr>],
       connection = True, stopped = False, auth = ''amqps://origin/hub'',
       actions = [CreateConnection]\<rparr>)"
  using run_async_start_policy[of
      "\<lparr>clients = [\<lparr>client_name = ''c1'', error = Some (EventHubError ''no link''), redirected = None\<rparr>,
                 \<lparr>client_name = ''c2'', error = Some (OtherError ''refused''), redirected = None\<rparr>],
      connection = False, stopped = False, auth = ''amqps://origin/hub'', actions = []\<rparr>"
      "\<lambda>c. c" "\<lambda>cs. (False, cs)"]
    run_async_start_policy[of
      "\<lparr>clients = [\<lparr>client_name = ''c1'', error = None, redirected = None\<rparr>,
                 \<lparr>client_name = ''c2'', error = Some (OtherError ''refused''), redirected = None\<rparr>],
      connection = False, stopped = False, auth = ''amqps://origin/hub'', actions = []\<rparr>"
      "\<lambda>c. c" "\<lambda>cs. (False, cs)"]
    run_async_start_policy[of
      "\<lparr>clients = [\<lparr>client_name = ''c1'', error = None, redirected = None\<rparr>,
                 \<lparr>client_name = ''c2'', error = None, redirected = None\<rparr>],
      connection = False, stopped = False, auth = ''amqps://origin/hub'', actions = []\<rparr>"
      "\<lambda>c. c" "\<lambda>cs. (False, cs)"]
  by (simp add: client_errors_def client_redirects_def List.map_filter_simps
      create_connection_async_def stop_async_def close_clients_async_def close_connection_async_def)

text \<open>
  C5 as stated fails: two clients start without error and are redirected to different
  hosts; \<open>run_async\<close> raises instead of returning the empty list.
\<close>

theorem none_failed_yet_run_raises:
  "client_errors
     [\<lparr>client_name = ''c1'', error = None,
       redirected = Some \<lparr>hostname = ''a.example'', address = ''amqps://a.example/hub''\<rparr>\<rparr>,
      \<lparr>client_name = ''c2'', error = None,
       redirected = Some \<lparr>hostname = ''b.example'', address = ''amqps://b.example/hub''\<rparr>\<rparr>] = [] \<and>
   run_async (\<lambda>c. c) (\<lambda>cs. (False, cs))
     \<lparr>clients =
        [\<lparr>client_name = ''c1'', error = None,
          redirected = Some \<lparr>hostname = ''a.example'', address = ''amqps://a.example/hub''\<rparr>\<rparr>,
         \<lparr>client_name = ''c2'', error = None,
          redirected = Some \<lparr>hostname = ''b.example'', address = ''amqps://b.example/hub''\<rparr>\<rparr>],
      connection = False, stopped = False, auth = ''amqps://origin/hub'', actions = []\<rparr>
   = (Inl (EventHubError redirect_conflict),
      \<lparr>clients =
        [\<lparr>client_name = ''c1'', error = None,
          redirected = Some \<lparr>hostname = ''a.example'', address = ''amqps://a.example/hub''\<rparr>\<rparr>,
         \<lparr>client_name = ''c2'', error = None,
          redirected = Some \<lparr>hostname = ''b.example'', address = ''amqps://b.example/hub''\<rparr>\<rparr>],
       connection = False, stopped = True, auth = ''amqps://origin/hub'',
       actions = [CreateConnection, CloseClient ''c1'', CloseClient ''c2'', DestroyConnection]\<rparr>)"
  by (simp add: run_async_def client_errors_def client_redirects_def List.map_filter_simps
      create_connection_async_def stop_async_def close_clients_async_def close_connection_async_def
      handle_redirect_def redirect_all_def run_failed_def Let_def)

section \<open>Properties of the partition pump\<close>








section \<open>Properties of the offset selector\<close>

text \<open>
  C8, as the code has it. For a string \<open>v\<close> the expression is
  \<open>amqp.annotation.x-opt-offset >= 'v'\<close> when inclusive and
  \<open>amqp.annotation.x-opt-offset > 'v'\<close> when not. For a \<open>datetime\<close> it is
  \<open>amqp.annotation.x-opt-enqueued-time > 'm'\<close> where \<open>m\<close> is \<open>str\<close> of the floating-point product
  of milliseconds with its fraction dropped: its floor when the product is not negative, its
  ceiling when it is.
\<close>

theorem selector_expressions:
  "Offset_selector millis str_ts \<lparr>position = Text v, inclusive = True\<rparr>
     = Inr (''amqp.annotation.x-opt-offset >= '' @ apostrophe @ v @ apostrophe) \<and>
   Offset_selector millis str_ts \<lparr>position = Text v, inclusive = False\<rparr>
     = Inr (''amqp.annotation.x-opt-offset > '' @ apostrophe @ v @ apostrophe) \<and>
   Offset_selector millis str_ts \<lparr>position = DateTime us, inclusive = b\<rparr>
     = Inr (''amqp.annotation.x-opt-enqueued-time > '' @ apostrophe @
            str_ts (if 0 \<le> millis us then \<lfloor>millis us\<rfloor> else \<lceil>millis us\<rceil>) @ apostrophe) \<and>
   Offset_selector millis str_ts \<lparr>position = Timestamp t, inclusive = b\<rparr>
     = Inr (''amqp.annotation.x-opt-enqueued-time > '' @ apostrophe @ str_ts t @ apostrophe)"
  by (simp add: Offset_selector_def timestamp_of_def)

text \<open>
  C8 as stated fails for a \<open>datetime\<close> half a millisecond before the epoch: the floor of its
  milliseconds is \<open>-1\<close>, the expression holds \<open>0\<close>.
\<close>

theorem selector_before_epoch_not_floor:
  "Offset_selector exact_millis str_int \<lparr>position = DateTime (- 500), inclusive = False\<rparr>
     = Inr (''amqp.annotation.x-opt-enqueued-time > '' @ apostrophe @ ''0'' @ apostrophe) \<and>
   \<lfloor>exact_millis (- 500)\<rfloor> = - 1 \<and>
   \<not> (Offset_selector exact_millis str_int \<lparr>position = DateTime (- 500), inclusive = False\<rparr>
     = Inr (''amqp.annotation.x-opt-enqueued-time > '' @ apostrophe @
            str_int \<lfloor>exact_millis (- 500)\<rfloor> @ apostrophe))"
proof -
  have m: "exact_millis (- 500) = - (1 / 2)" by (simp add: exact_millis_def)
  have fl: "\<lfloor>exact_millis (- 500)\<rfloor> = - 1" unfolding m by linarith
  have ce: "\<lceil>exact_millis (- 500)\<rceil> = 0" unfolding m by linarith
  have ts: "timestamp_of (exact_millis (- 500)) = 0"
    unfolding timestamp_of_def using ce m by simp
  have sel: "Offset_selector exact_millis str_int \<lparr>position = DateTime (- 500), inclusive = False\<rparr>
     = Inr (''amqp.annotation.x-opt-enqueued-time > '' @ apostrophe @ ''0'' @ apostrophe)"
    by (simp add: Offset_selector_def ts str_int_def)
  have "str_int (- 1) = ''-1''" by (simp add: str_int_def)
  then show ?thesis unfolding sel fl by (simp add: apostrophe_def)
qed

end
